theory Spec2Isabelle
  imports Main "HOL-Library.Sublist"
begin

section \<open>Strings\<close>

text \<open>
  A Python \<open>str\<close> is a sequence of Unicode code points. The renderer looks for
  U+2028 and U+2029, which do not fit an 8-bit character, so a string is modelled as the
  list of its code points. \<open>ustr\<close> turns an ASCII literal into that representation.
\<close>

type_synonym str = "nat list"

definition ustr :: "string \<Rightarrow> str" where
  "ustr s = map of_char s"

text \<open>
  \<open>str.replace(old, new)\<close>: scan from the left, replace each non-overlapping occurrence
  of \<open>old\<close> and continue after it. With an empty \<open>old\<close>, Python inserts \<open>new\<close> before
  every character and at the end.
\<close>

fun replace :: "'a list \<Rightarrow> 'a list \<Rightarrow> 'a list \<Rightarrow> 'a list" where
  "replace old new [] = (if old = [] then new else [])"
| "replace old new (c # cs) =
     (if old = [] then new @ c # replace old new cs
      else if prefix old (c # cs) then new @ replace old new (drop (length old) (c # cs))
      else c # replace old new cs)"

text \<open>\<open>sub in text\<close>: some position of \<open>text\<close> starts an occurrence of \<open>sub\<close>.\<close>

fun contains :: "'a list \<Rightarrow> 'a list \<Rightarrow> bool" where
  "contains sub [] = (sub = [])"
| "contains sub (c # cs) = (prefix sub (c # cs) \<or> contains sub cs)"

text \<open>
  \<open>text.count(sub)\<close>: the number of non-overlapping occurrences, found from the left.
  The empty string occurs \<open>len(text) + 1\<close> times.
\<close>

fun count_str :: "'a list \<Rightarrow> 'a list \<Rightarrow> int" where
  "count_str sub [] = (if sub = [] then 1 else 0)"
| "count_str sub (c # cs) =
     (if sub = [] then 1 + count_str sub cs
      else if prefix sub (c # cs) then 1 + count_str sub (drop (length sub) (c # cs))
      else count_str sub cs)"

text \<open>
  \<open>str.isspace\<close> on one code point: the characters Python treats as whitespace
  (bidirectional class WS, B or S, or category Zs). \<open>str.strip()\<close> removes them from
  both ends.
\<close>

definition isspace :: "nat \<Rightarrow> bool" where
  "isspace c =
     ((9 \<le> c \<and> c \<le> 13) \<or> (28 \<le> c \<and> c \<le> 32) \<or> c = 133 \<or> c = 160 \<or> c = 5760
      \<or> (8192 \<le> c \<and> c \<le> 8202) \<or> c = 8232 \<or> c = 8233 \<or> c = 8239 \<or> c = 8287
      \<or> c = 12288)"

definition strip :: "str \<Rightarrow> str" where
  "strip s = rev (dropWhile isspace (rev (dropWhile isspace s)))"

section \<open>Configuration and time\<close>

record PaperConfig =
  station_name :: str
  default_font :: str
  sign_font :: str
  crayon_font :: str
  pen_color :: str

text \<open>The field defaults of the dataclass.\<close>

definition default_config :: PaperConfig where
  "default_config =
     \<lparr> station_name = ustr ''NSS Example'',
       default_font = ustr ''Verdana'',
       sign_font = ustr ''Times New Roman'',
       crayon_font = ustr ''Comic Sans MS'',
       pen_color = ustr ''black'' \<rparr>"

text \<open>
  The calendar fields of a \<open>datetime.datetime\<close> that the renderer prints. Python keeps
  the year in 1..9999, the month in 1..12, the day in 1..31, the hour in 0..23 and the
  minute in 0..59. A datetime object can also carry a \<open>tzinfo\<close>, which decides whether
  \<open>strftime\<close> raises; that part is modelled with \<open>render_call\<close> below, and this
  record stands for a datetime on which \<open>strftime\<close> returns.
\<close>

record datetime =
  year :: nat
  month :: nat
  day :: nat
  hour :: nat
  minute :: nat

definition digit :: "nat \<Rightarrow> nat" where
  "digit n = 48 + n mod 10"

text \<open>
  \<open>strftime\<close> fields. \<open>%H\<close>, \<open>%M\<close>, \<open>%m\<close> and \<open>%d\<close> are two decimal digits,
  zero-padded. \<open>%Y\<close> is the year in decimal as the C library prints it: with glibc a year
  below 1000 is not padded (year 999 prints as \<open>999\<close>), so the year is written without
  padding here.
\<close>

definition pad2 :: "nat \<Rightarrow> str" where
  "pad2 n = [digit (n div 10), digit n]"

fun decimal :: "nat \<Rightarrow> str" where
  "decimal n = (if n < 10 then [digit n] else decimal (n div 10) @ [digit n])"

declare decimal.simps [simp del]

text \<open>
  \<open>now or datetime.datetime.now()\<close>: a datetime object is always truthy, so a supplied
  \<open>now\<close> is used and the clock is read only for \<open>None\<close>. The clock's reading is the
  parameter \<open>clock\<close>.
\<close>

definition now_or :: "datetime \<Rightarrow> datetime option \<Rightarrow> datetime" where
  "now_or clock now = (case now of Some t \<Rightarrow> t | None \<Rightarrow> clock)"

definition station_time_text :: "datetime \<Rightarrow> datetime option \<Rightarrow> str" where
  "station_time_text clock now =
     (let t = now_or clock now in pad2 (hour t) @ ustr '':'' @ pad2 (minute t))"

definition station_date_text :: "datetime \<Rightarrow> datetime option \<Rightarrow> str" where
  "station_date_text clock now =
     (let t = now_or clock now
      in decimal (year t) @ ustr ''-'' @ pad2 (month t) @ ustr ''-'' @ pad2 (day t))"

section \<open>Escaping\<close>

text \<open>
  \<open>html.escape(s, quote)\<close> of the Python standard library: \<open>&\<close> first, then \<open><\<close> and
  \<open>>\<close>, and with \<open>quote\<close> also the double quote and the apostrophe (as \<open>&#x27;\<close>).
\<close>

definition html_escape :: "str \<Rightarrow> bool \<Rightarrow> str" where
  \<open>html_escape s quote =
     (let s = replace (ustr ''&'') (ustr ''&amp;'') s;
          s = replace (ustr ''<'') (ustr ''&lt;'') s;
          s = replace (ustr ''>'') (ustr ''&gt;'') s
      in if quote
         then (let s = replace (ustr ''"'') (ustr ''&quot;'') s
               in replace [39] (ustr ''&#x27;'') s)
         else s)\<close>

definition encode_byondish_html :: "str \<Rightarrow> str" where
  \<open>encode_byondish_html text =
     (let escaped = html_escape text True
      in replace [39] (ustr ''&#39;'') escaped)\<close>

text \<open>
  The newline pass of \<open>render_pencode_to_html\<close> (source lines 102 to 108): \<open>\r\n\<close>,
  \<open>\n\<close>, \<open>\r\<close>, U+2028 and U+2029 are replaced by the empty string, in this order.
\<close>

definition strip_newlines :: "str \<Rightarrow> str" where
  "strip_newlines html_text =
     replace [8233] [] (replace [8232] [] (replace [13] [] (replace [10] []
       (replace [13, 10] [] html_text))))"

section \<open>Signature\<close>

text \<open>
  \<open>signature and signature.strip()\<close> holds for a signature that is not \<open>None\<close>, not
  empty and not blank; the name returned is the stripped one. The user name is treated the
  same way.
\<close>

definition resolved_signature :: "str option \<Rightarrow> str option \<Rightarrow> str" where
  "resolved_signature signature user_name =
     (if (case signature of Some s \<Rightarrow> s \<noteq> [] \<and> strip s \<noteq> [] | None \<Rightarrow> False)
      then strip (the signature)
      else if (case user_name of Some u \<Rightarrow> u \<noteq> [] \<and> strip u \<noteq> [] | None \<Rightarrow> False)
      then strip (the user_name)
      else ustr ''Anonymous'')"

section \<open>Tag substitution\<close>

fun replace_in_order :: "str \<Rightarrow> (str \<times> str) list \<Rightarrow> str" where
  "replace_in_order text [] = text"
| "replace_in_order text ((needle, repl) # replacements) =
     replace_in_order (replace needle repl text) replacements"

text \<open>The needle of \<open>html_text.count\<close> in the last step of the renderer.\<close>

definition field_span :: str where
  \<open>field_span = ustr ''<span class="paper_field">''\<close>

text \<open>
  The list \<open>common_replacements\<close> (source lines 110 to 133). The time and date entries
  are computed from the resolved \<open>now\<close>.
\<close>

definition common_replacements ::
  "datetime \<Rightarrow> datetime \<Rightarrow> PaperConfig \<Rightarrow> (str \<times> str) list" where
  \<open>common_replacements clock now paper_config =
     [(ustr ''[center]'', ustr ''<center>''),
      (ustr ''[/center]'', ustr ''</center>''),
      (ustr ''[br]'', ustr ''<BR>''),
      (ustr ''[b]'', ustr ''<B>''),
      (ustr ''[/b]'', ustr ''</B>''),
      (ustr ''[i]'', ustr ''<I>''),
      (ustr ''[/i]'', ustr ''</I>''),
      (ustr ''[u]'', ustr ''<U>''),
      (ustr ''[/u]'', ustr ''</U>''),
      (ustr ''[time]'', station_time_text clock (Some now)),
      (ustr ''[date]'', station_date_text clock (Some now)),
      (ustr ''[station]'', station_name paper_config),
      (ustr ''[large]'', ustr ''<font size="4">''),
      (ustr ''[/large]'', ustr ''</font>''),
      (ustr ''[field]'', ustr ''<span class="paper_field"></span>''),
      (ustr ''[h1]'', ustr ''<H1>''),
      (ustr ''[/h1]'', ustr ''</H1>''),
      (ustr ''[h2]'', ustr ''<H2>''),
      (ustr ''[/h2]'', ustr ''</H2>''),
      (ustr ''[h3]'', ustr ''<H3>''),
      (ustr ''[/h3]'', ustr ''</H3>''),
      (ustr ''[tab]'', concat (replicate 6 (ustr ''&nbsp;'')))]\<close>

definition sign_tag :: str where
  "sign_tag = ustr ''[sign]''"

text \<open>The f-string that wraps the escaped signature.\<close>

definition signature_html :: "PaperConfig \<Rightarrow> str \<Rightarrow> str" where
  \<open>signature_html paper_config signature_text =
     ustr ''<font face="'' @ sign_font paper_config @ ustr ''"><i>'' @ signature_text
       @ ustr ''</i></font>''\<close>

text \<open>The \<open>if "[sign]" in html_text\<close> block (source lines 136 to 139).\<close>

definition sign_stage :: "PaperConfig \<Rightarrow> str option \<Rightarrow> str option \<Rightarrow> str \<Rightarrow> str" where
  "sign_stage paper_config user_name signature html_text =
     (if contains sign_tag html_text
      then (let signature_text = encode_byondish_html (resolved_signature signature user_name)
            in replace sign_tag (signature_html paper_config signature_text) html_text)
      else html_text)"

text \<open>The crayon branch (source lines 141 to 152).\<close>

definition restricted_tokens :: "str list" where
  "restricted_tokens =
     [ustr ''[*]'', ustr ''[hr]'', ustr ''[small]'', ustr ''[/small]'', ustr ''[list]'',
      ustr ''[/list]'', ustr ''[table]'', ustr ''[/table]'', ustr ''[row]'', ustr ''[cell]'',
      ustr ''[/cell]'', ustr ''[/row]'', ustr ''[logo]'', ustr ''[sglogo]'']"

text \<open>The loop \<open>for token in restricted_tokens: html_text = html_text.replace(token, "")\<close>.\<close>

fun remove_tokens :: "str \<Rightarrow> str list \<Rightarrow> str" where
  "remove_tokens html_text [] = html_text"
| "remove_tokens html_text (token # tokens) = remove_tokens (replace token [] html_text) tokens"

definition crayon_branch :: "PaperConfig \<Rightarrow> str \<Rightarrow> str" where
  \<open>crayon_branch paper_config html_text =
     (let html_text = remove_tokens html_text restricted_tokens
      in ustr ''<font face="'' @ crayon_font paper_config @ ustr ''" color=''
           @ pen_color paper_config @ ustr ''>'' @ ustr ''<b>'' @ html_text
           @ ustr ''</b></font>'')\<close>

text \<open>
  The pen branch (source lines 153 to 176). The logo replacements hold a backslash (code
  point 92) and apostrophes (code point 39), written out as numbers.
\<close>

definition logo_img :: "string \<Rightarrow> str" where
  \<open>logo_img file =
     ustr ''<img src='' @ [92] @ ustr ''ref['' @ [39] @ ustr ''html/images/'' @ ustr file
       @ [39] @ ustr '']>''\<close>

definition pen_only_replacements :: "(str \<times> str) list" where
  \<open>pen_only_replacements =
     [(ustr ''[*]'', ustr ''<li>''),
      (ustr ''[hr]'', ustr ''<HR>''),
      (ustr ''[small]'', ustr ''<font size="1">''),
      (ustr ''[/small]'', ustr ''</font>''),
      (ustr ''[list]'', ustr ''<ul>''),
      (ustr ''[/list]'', ustr ''</ul>''),
      (ustr ''[table]'',
         ustr ''<table border=1 cellspacing=0 cellpadding=3 style='' @ [39]
           @ ustr ''border: 1px solid black;'' @ [39] @ ustr ''>''),
      (ustr ''[/table]'', ustr ''</td></tr></table>''),
      (ustr ''[grid]'', ustr ''<table>''),
      (ustr ''[/grid]'', ustr ''</td></tr></table>''),
      (ustr ''[row]'', ustr ''</td><tr>''),
      (ustr ''[/row]'', []),
      (ustr ''[cell]'', ustr ''<td>''),
      (ustr ''[/cell]'', []),
      (ustr ''[logo]'', logo_img ''ntlogo.png''),
      (ustr ''[sglogo]'', logo_img ''sglogo.png''),
      (ustr ''[trlogo]'', logo_img ''trader.png''),
      (ustr ''[pclogo]'', logo_img ''pclogo.png'')]\<close>

definition pen_branch :: "PaperConfig \<Rightarrow> str \<Rightarrow> str" where
  \<open>pen_branch paper_config html_text =
     (let html_text = replace_in_order html_text pen_only_replacements
      in ustr ''<font face="'' @ default_font paper_config @ ustr ''" color=''
           @ pen_color paper_config @ ustr ''>'' @ html_text @ ustr ''</font>'')\<close>

section \<open>The renderer\<close>

text \<open>
  \<open>render_pencode_to_html\<close>, stage by stage as the source runs them. The first argument
  is the reading of the clock, used only when \<open>now\<close> is \<open>None\<close>. The result is the
  pair \<open>(html_text, field_count)\<close>; no path of the source raises.
\<close>

definition render_pencode_to_html ::
  "datetime \<Rightarrow> str \<Rightarrow> PaperConfig \<Rightarrow> str option \<Rightarrow> str option \<Rightarrow> bool \<Rightarrow> datetime option
     \<Rightarrow> str \<times> int" where
  "render_pencode_to_html clock raw_text paper_config user_name signature is_crayon now =
     (let now = now_or clock now;
          html_text = encode_byondish_html raw_text;
          html_text = strip_newlines html_text;
          html_text = replace_in_order html_text (common_replacements clock now paper_config);
          html_text = sign_stage paper_config user_name signature html_text;
          html_text = (if is_crayon then crayon_branch paper_config html_text
                       else pen_branch paper_config html_text);
          field_count = count_str field_span html_text
      in (html_text, field_count))"

section \<open>Calls with a datetime object\<close>






section \<open>Notions used to state the properties\<close>

text \<open>
  What the escaper does to one character: each of the five significant characters becomes
  a character reference, every other character stays.
\<close>

definition escape_char :: "nat \<Rightarrow> str" where
  \<open>escape_char c =
     (if c = 38 then ustr ''&amp;''
      else if c = 60 then ustr ''&lt;''
      else if c = 62 then ustr ''&gt;''
      else if c = 34 then ustr ''&quot;''
      else if c = 39 then ustr ''&#x27;''
      else [c])\<close>

definition char_refs :: "str list" where
  \<open>char_refs = [ustr ''&amp;'', ustr ''&lt;'', ustr ''&gt;'', ustr ''&quot;'', ustr ''&#x27;'']\<close>

text \<open>Every \<open>&\<close> of a text starts one of the five references.\<close>

fun amp_ok :: "str \<Rightarrow> bool" where
  "amp_ok [] = True"
| "amp_ok (c # cs) = ((c \<noteq> 38 \<or> (\<exists>r \<in> set char_refs. prefix r (c # cs))) \<and> amp_ok cs)"

text \<open>
  The number of positions of a text at which \<open>sub\<close> occurs, overlapping occurrences
  included.
\<close>

fun occurrences :: "'a list \<Rightarrow> 'a list \<Rightarrow> nat" where
  "occurrences sub [] = 0"
| "occurrences sub (c # cs) = (if prefix sub (c # cs) then 1 else 0) + occurrences sub cs"

text \<open>The four newline characters: \<open>\n\<close>, \<open>\r\<close>, U+2028 and U+2029.\<close>

definition newline_chars :: "nat set" where
  "newline_chars = {10, 13, 8232, 8233}"

definition no_newline :: "str \<Rightarrow> bool" where
  "no_newline s = (set s \<inter> newline_chars = {})"

text \<open>A fixed timestamp for the closed examples: 2024-03-07, 09:05.\<close>

definition example_now :: datetime where
  "example_now = \<lparr> year = 2024, month = 3, day = 7, hour = 9, minute = 5 \<rparr>"

text \<open>
  The signature text when the chosen name is used as it was given: the signature if it is
  not blank once trimmed, else the user name if it is not blank once trimmed, else
  \<open>Anonymous\<close>.
\<close>

definition stated_signature_text :: "str option \<Rightarrow> str option \<Rightarrow> str" where
  "stated_signature_text signature user_name =
     (case signature of
        Some s \<Rightarrow> if strip s \<noteq> [] then s else
          (case user_name of
             Some u \<Rightarrow> if strip u \<noteq> [] then u else ustr ''Anonymous''
           | None \<Rightarrow> ustr ''Anonymous'')
      | None \<Rightarrow>
          (case user_name of
             Some u \<Rightarrow> if strip u \<noteq> [] then u else ustr ''Anonymous''
           | None \<Rightarrow> ustr ''Anonymous''))"

text \<open>The same choice, with the chosen name trimmed of surrounding whitespace.\<close>

definition trimmed_signature_text :: "str option \<Rightarrow> str option \<Rightarrow> str" where
  "trimmed_signature_text signature user_name =
     (case signature of
        Some s \<Rightarrow> if strip s \<noteq> [] then strip s else
          (case user_name of
             Some u \<Rightarrow> if strip u \<noteq> [] then strip u else ustr ''Anonymous''
           | None \<Rightarrow> ustr ''Anonymous'')
      | None \<Rightarrow>
          (case user_name of
             Some u \<Rightarrow> if strip u \<noteq> [] then strip u else ustr ''Anonymous''
           | None \<Rightarrow> ustr ''Anonymous''))"

text \<open>
  The text that reaches the mode branch: the raw text escaped, its newlines removed, the
  common replacements applied and \<open>[sign]\<close> resolved.
\<close>

definition text_before_mode ::
  "datetime \<Rightarrow> str \<Rightarrow> PaperConfig \<Rightarrow> str option \<Rightarrow> str option \<Rightarrow> datetime option \<Rightarrow> str" where
  "text_before_mode clock raw_text paper_config user_name signature now =
     sign_stage paper_config user_name signature
       (replace_in_order (strip_newlines (encode_byondish_html raw_text))
          (common_replacements clock (now_or clock now) paper_config))"

text \<open>
  A raw text cut into pieces: plain text, \<open>[table]\<close> and \<open>[/table]\<close>. \<open>piece_source\<close>
  is what the author typed, \<open>piece_html\<close> what pen mode is to make of it: plain text
  escaped and without its newlines, the two tags as their markup.
\<close>

datatype piece = Plain str | Table_Open | Table_Close

fun piece_source :: "piece \<Rightarrow> str" where
  "piece_source (Plain p) = p"
| "piece_source Table_Open = ustr ''[table]''"
| "piece_source Table_Close = ustr ''[/table]''"

fun piece_html :: "piece \<Rightarrow> str" where
  \<open>piece_html (Plain p) = strip_newlines (encode_byondish_html p)\<close>
| \<open>piece_html Table_Open =
     ustr ''<table border=1 cellspacing=0 cellpadding=3 style='border: 1px solid black;'>''\<close>
| \<open>piece_html Table_Close = ustr ''</td></tr></table>''\<close>

fun no_bracket :: "piece \<Rightarrow> bool" where
  "no_bracket (Plain p) = (91 \<notin> set p)"
| "no_bracket Table_Open = True"
| "no_bracket Table_Close = True"

text \<open>
  The same pieces with the two tags written as \<open>a\<close> and \<open>b\<close>: the text between two
  replacement passes.
\<close>

fun piece_text :: "str \<Rightarrow> str \<Rightarrow> piece \<Rightarrow> str" where
  "piece_text a b (Plain p) = strip_newlines (encode_byondish_html p)"
| "piece_text a b Table_Open = a"
| "piece_text a b Table_Close = b"

definition pieces_text :: "str \<Rightarrow> str \<Rightarrow> piece list \<Rightarrow> str" where
  "pieces_text a b ps = concat (map (piece_text a b) ps)"

text \<open>
  A needle that starts with \<open>[\<close>, and a stretch of text in which such a needle cannot
  start an occurrence: it holds no \<open>[\<close>, or only as its first character and then differs
  from the needle.
\<close>

definition is_tag :: "str \<Rightarrow> bool" where
  "is_tag n = (n \<noteq> [] \<and> hd n = 91)"

definition quiet :: "str \<Rightarrow> str \<Rightarrow> bool" where
  "quiet n g =
     (91 \<notin> set g
      \<or> (g \<noteq> [] \<and> hd g = 91 \<and> 91 \<notin> set (tl g) \<and> \<not> prefix n g \<and> \<not> prefix g n))"

section \<open>Facts about the string operations\<close>

lemma replace_single:
  "replace [a] new s = concat (map (\<lambda>c. if c = a then new else [c]) s)"
  by (induction s) auto

lemma replace_single_filter: "replace [a] [] s = filter (\<lambda>c. c \<noteq> a) s"
  by (induction s) simp_all

lemma prefix_drop_decomp: "prefix old s \<Longrightarrow> s = old @ drop (length old) s"
  by (auto simp: prefix_def)

lemma set_replace_subset: "set (replace old new s) \<subseteq> set s \<union> set new"
proof (induction old new s rule: replace.induct)
  case (1 old new)
  then show ?case by auto
next
  case (2 old new c cs)
  have "set (drop (length old) (c # cs)) \<subseteq> set (c # cs)"
    by (rule set_drop_subset)
  with 2 show ?case by (auto split: if_splits)
qed

lemma filter_replace_nil:
  assumes "\<forall>c \<in> set old. \<not> P c"
  shows "filter P (replace old [] s) = filter P s"
  using assms
proof (induction old "[] :: 'a list" s rule: replace.induct)
  case (1 old)
  then show ?case by simp
next
  case (2 old c cs)
  show ?case
  proof (cases "old \<noteq> [] \<and> prefix old (c # cs)")
    case True
    then have dec: "c # cs = old @ drop (length old) (c # cs)"
      using prefix_drop_decomp by blast
    have "filter P (c # cs) = filter P (old @ drop (length old) (c # cs))"
      using dec by simp
    also have "\<dots> = filter P (drop (length old) (c # cs))"
      using 2(4) by simp
    finally show ?thesis using True 2 by simp
  next
    case False
    then show ?thesis using 2 by auto
  qed
qed


lemma occurrences_skip:
  "sub \<noteq> [] \<Longrightarrow> hd sub \<notin> set xs \<Longrightarrow> occurrences sub (xs @ ys) = occurrences sub ys"
  by (induction xs) (auto simp: prefix_Cons neq_Nil_conv)

lemma count_str_skip:
  "sub \<noteq> [] \<Longrightarrow> hd sub \<notin> set xs \<Longrightarrow> count_str sub (xs @ ys) = count_str sub ys"
  by (induction xs) (auto simp: prefix_Cons neq_Nil_conv)

lemma occurrences_unbordered_step:
  assumes "sub \<noteq> []" "hd sub \<notin> set (tl sub)" "prefix sub (c # cs)"
  shows "occurrences sub (c # cs) = 1 + occurrences sub (drop (length sub) (c # cs))"
proof -
  obtain rest where dec: "c # cs = sub @ rest" and r: "rest = drop (length sub) (c # cs)"
    using assms(3) by (auto simp: prefix_def)
  from assms(1) dec have cs: "cs = tl sub @ rest"
    by (cases sub) auto
  have "occurrences sub cs = occurrences sub rest"
    unfolding cs using assms(1,2) by (rule occurrences_skip)
  with assms(3) r show ?thesis by simp
qed

lemma count_str_occurrences:
  assumes "sub \<noteq> []" "hd sub \<notin> set (tl sub)"
  shows "count_str sub s = int (occurrences sub s)"
  using assms
proof (induction sub s rule: count_str.induct)
  case (1 sub)
  then show ?case by simp
next
  case (2 sub c cs)
  show ?case
  proof (cases "prefix sub (c # cs)")
    case True
    with 2 show ?thesis
      using occurrences_unbordered_step[of sub c cs] by simp
  next
    case False
    with 2 show ?thesis by simp
  qed
qed

lemma occurrences_card:
  "sub \<noteq> [] \<Longrightarrow> occurrences sub s = card {i. i < length s \<and> prefix sub (drop i s)}"
proof (induction s)
  case Nil
  then show ?case by simp
next
  case (Cons c cs)
  let ?A = "{i. i < length cs \<and> prefix sub (drop i cs)}"
  let ?B = "{i. i < length (c # cs) \<and> prefix sub (drop i (c # cs))}"
  have fin: "finite ?A" by simp
  have split: "?B = (if prefix sub (c # cs) then {0} else {}) \<union> Suc ` ?A"
  proof (rule set_eqI)
    fix i
    show "i \<in> ?B \<longleftrightarrow> i \<in> (if prefix sub (c # cs) then {0} else {}) \<union> Suc ` ?A"
      by (cases i) auto
  qed
  have "card (Suc ` ?A) = card ?A"
    by (simp add: card_image)
  moreover have "card ({0} \<union> Suc ` ?A) = Suc (card (Suc ` ?A))"
    using fin by (subst card_Un_disjoint) auto
  ultimately have "card ?B = (if prefix sub (c # cs) then 1 else 0) + card ?A"
    unfolding split by (cases "prefix sub (c # cs)") simp_all
  with Cons show ?case by simp
qed

lemma count_str_skip_Cons:
  "a \<notin> set xs \<Longrightarrow> count_str (a # sub) (xs @ ys) = count_str (a # sub) ys"
  using count_str_skip[of "a # sub" xs ys] by simp

lemma occurrences_skip_Cons:
  "a \<notin> set xs \<Longrightarrow> occurrences (a # sub) (xs @ ys) = occurrences (a # sub) ys"
  using occurrences_skip[of "a # sub" xs ys] by simp

lemmas render_unfold = render_pencode_to_html_def ustr_def encode_byondish_html_def html_escape_def
      strip_newlines_def common_replacements_def sign_stage_def sign_tag_def pen_branch_def
      pen_only_replacements_def Let_def crayon_branch_def restricted_tokens_def

lemma render_fragment:
  "fst (render_pencode_to_html clock raw_text paper_config user_name signature is_crayon now)
   = (if is_crayon
      then crayon_branch paper_config
             (text_before_mode clock raw_text paper_config user_name signature now)
      else pen_branch paper_config
             (text_before_mode clock raw_text paper_config user_name signature now))"
  by (simp add: render_pencode_to_html_def text_before_mode_def Let_def)

lemma field_count_is_count:
  "snd (render_pencode_to_html clock raw_text paper_config user_name signature is_crayon now)
   = count_str field_span
       (fst (render_pencode_to_html clock raw_text paper_config user_name signature is_crayon now))"
  by (simp add: render_pencode_to_html_def Let_def)

section \<open>The escaper\<close>

lemma concat_map_concat_map:
  "concat (map f (concat (map g s))) = concat (map (\<lambda>c. concat (map f (g c))) s)"
  by (induction s) simp_all

lemma encode_byondish_html_concat:
  "encode_byondish_html s = concat (map escape_char s)"
proof -
  have "(\<lambda>c. concat (map (\<lambda>c. if c = 39 then ustr ''&#39;'' else [c])
          (concat (map (\<lambda>c. if c = 39 then ustr ''&#x27;'' else [c])
            (concat (map (\<lambda>c. if c = 34 then ustr ''&quot;'' else [c])
              (concat (map (\<lambda>c. if c = 62 then ustr ''&gt;'' else [c])
                (concat (map (\<lambda>c. if c = 60 then ustr ''&lt;'' else [c])
                  (if c = 38 then ustr ''&amp;'' else [c])))))))))))
        = escape_char"
    by (rule ext) (simp add: escape_char_def ustr_def)
  then show ?thesis
    by (simp add: encode_byondish_html_def html_escape_def ustr_def[of "''&''"]
        ustr_def[of "''<''"] ustr_def[of "''>''"] ustr_def[of "[CHR 0x22]"]
        replace_single concat_map_concat_map)
qed

lemma escape_char_no_raw:
  "60 \<notin> set (escape_char c) \<and> 62 \<notin> set (escape_char c)
   \<and> 34 \<notin> set (escape_char c) \<and> 39 \<notin> set (escape_char c)"
  by (simp add: escape_char_def ustr_def)

lemma amp_ok_append: "amp_ok xs \<Longrightarrow> amp_ok ys \<Longrightarrow> amp_ok (xs @ ys)"
proof (induction xs)
  case Nil
  then show ?case by simp
next
  case (Cons c cs)
  have "prefix r (c # cs) \<Longrightarrow> prefix r (c # cs @ ys)" for r
    using prefix_prefix[of r "c # cs" ys] by simp
  with Cons show ?case by auto
qed

lemma amp_ok_escape_char: "amp_ok (escape_char c)"
  by (simp add: escape_char_def char_refs_def ustr_def)

lemma amp_ok_encode: "amp_ok (concat (map escape_char s))"
  by (induction s) (simp_all add: amp_ok_append amp_ok_escape_char)

lemma amp_ok_nth:
  "amp_ok s \<Longrightarrow> i < length s \<Longrightarrow> s ! i = 38 \<Longrightarrow> \<exists>r \<in> set char_refs. prefix r (drop i s)"
proof (induction s arbitrary: i)
  case Nil
  then show ?case by simp
next
  case (Cons c cs)
  then show ?case by (cases i) auto
qed

text \<open>
  Claim C2. For every input, \<open>encode_byondish_html\<close> replaces each \<open>&\<close>, \<open><\<close>,
  \<open>>\<close>, double quote and apostrophe by its character reference and keeps every other
  character; the output holds no \<open><\<close>, \<open>>\<close>, double quote or apostrophe, and every
  \<open>&\<close> of the output is the first character of one of the five references.
\<close>

theorem escaper_neutralises:
  "encode_byondish_html s = concat (map escape_char s)
   \<and> 60 \<notin> set (encode_byondish_html s) \<and> 62 \<notin> set (encode_byondish_html s)
   \<and> 34 \<notin> set (encode_byondish_html s) \<and> 39 \<notin> set (encode_byondish_html s)
   \<and> (\<forall>i < length (encode_byondish_html s). encode_byondish_html s ! i = 38 \<longrightarrow>
        (\<exists>r \<in> set char_refs. prefix r (drop i (encode_byondish_html s))))"
proof -
  have raw: "60 \<notin> set (concat (map escape_char s)) \<and> 62 \<notin> set (concat (map escape_char s))
     \<and> 34 \<notin> set (concat (map escape_char s)) \<and> 39 \<notin> set (concat (map escape_char s))"
    using escape_char_no_raw by (induction s) auto
  have amp: "\<forall>i < length (concat (map escape_char s)). concat (map escape_char s) ! i = 38 \<longrightarrow>
        (\<exists>r \<in> set char_refs. prefix r (drop i (concat (map escape_char s))))"
    using amp_ok_nth[OF amp_ok_encode] by blast
  show ?thesis
    unfolding encode_byondish_html_concat using raw amp by blast
qed

theorem escaper_neutralises_witness:
  \<open>encode_byondish_html (ustr ''a&b<'' @ [39]) = ustr ''a&amp;b&lt;&#x27;''
   \<and> 60 \<notin> set (ustr ''a&amp;b&lt;&#x27;'') \<and> 39 \<notin> set (ustr ''a&amp;b&lt;&#x27;'')
   \<and> (1::nat) < length (ustr ''a&amp;b&lt;&#x27;'') \<and> ustr ''a&amp;b&lt;&#x27;'' ! 1 = 38
   \<and> (\<exists>r \<in> set char_refs. prefix r (drop 1 (ustr ''a&amp;b&lt;&#x27;'')))\<close>
proof -
  let ?s = \<open>ustr ''a&b<'' @ [39]\<close>
  let ?out = \<open>ustr ''a&amp;b&lt;&#x27;''\<close>
  note inst = escaper_neutralises[of ?s]
  from inst have "encode_byondish_html ?s = concat (map escape_char ?s)"
    by blast
  then have e: "encode_byondish_html ?s = ?out"
    by (simp add: escape_char_def ustr_def)
  have h: "(1::nat) < length ?out \<and> ?out ! 1 = 38"
    by (simp add: ustr_def)
  from inst have "\<forall>i < length ?out. ?out ! i = 38 \<longrightarrow>
      (\<exists>r \<in> set char_refs. prefix r (drop i ?out))"
    unfolding e by blast
  with h have r: "\<exists>r \<in> set char_refs. prefix r (drop 1 ?out)"
    by blast
  from inst have "60 \<notin> set ?out \<and> 39 \<notin> set ?out"
    unfolding e by blast
  with e h r show ?thesis by blast
qed

section \<open>Newlines\<close>

lemma strip_newlines_filter:
  "strip_newlines s = filter (\<lambda>c. c \<notin> newline_chars) s"
proof -
  have "filter (\<lambda>c. c \<notin> newline_chars) (replace [13, 10] [] s)
        = filter (\<lambda>c. c \<notin> newline_chars) s"
    by (rule filter_replace_nil) (simp add: newline_chars_def)
  moreover have "strip_newlines s = filter (\<lambda>c. c \<notin> newline_chars) (replace [13, 10] [] s)"
    by (auto simp: strip_newlines_def replace_single_filter newline_chars_def
        intro: filter_cong)
  ultimately show ?thesis by simp
qed

lemma no_newline_append [simp]: "no_newline (xs @ ys) = (no_newline xs \<and> no_newline ys)"
  by (auto simp: no_newline_def)

lemma no_newline_replace: "no_newline s \<Longrightarrow> no_newline new \<Longrightarrow> no_newline (replace old new s)"
  using set_replace_subset[of old new s] by (auto simp: no_newline_def)

lemma no_newline_replace_in_order:
  "no_newline s \<Longrightarrow> list_all (\<lambda>(needle, repl). no_newline repl) rs
   \<Longrightarrow> no_newline (replace_in_order s rs)"
  by (induction s rs rule: replace_in_order.induct) (auto simp: no_newline_replace)

lemma no_newline_Nil [simp]: "no_newline []"
  by (simp add: no_newline_def)

lemma no_newline_Cons [simp]: "no_newline (c # cs) = (c \<notin> newline_chars \<and> no_newline cs)"
  by (auto simp: no_newline_def)

lemma no_newline_concat_replicate: "no_newline s \<Longrightarrow> no_newline (concat (replicate n s))"
  by (induction n) simp_all

lemma no_newline_remove_tokens: "no_newline s \<Longrightarrow> no_newline (remove_tokens s ts)"
  by (induction s ts rule: remove_tokens.induct) (simp_all add: no_newline_replace)

lemma of_char_newline: "(of_char c :: nat) \<in> newline_chars \<longleftrightarrow> c = CHR 0x0A \<or> c = CHR 0x0D"
proof -
  have "(of_char c :: nat) \<noteq> 8232" "(of_char c :: nat) \<noteq> 8233"
    using nat_of_char_less_256[of c] by linarith+
  moreover have "(of_char c :: nat) = 10 \<longleftrightarrow> c = CHR 0x0A"
    using of_char_eq_iff[of c "CHR 0x0A", where ?'a = nat] by simp
  moreover have "(of_char c :: nat) = 13 \<longleftrightarrow> c = CHR 0x0D"
    using of_char_eq_iff[of c "CHR 0x0D", where ?'a = nat] by simp
  ultimately show ?thesis by (simp add: newline_chars_def)
qed

lemma no_newline_ustr [simp]:
  "no_newline (ustr s) \<longleftrightarrow> CHR 0x0A \<notin> set s \<and> CHR 0x0D \<notin> set s"
  by (induction s) (auto simp: no_newline_def ustr_def of_char_newline)

lemma no_newline_digit: "digit n \<notin> newline_chars"
  by (simp add: digit_def newline_chars_def) presburger

lemma no_newline_strip_newlines: "no_newline (strip_newlines s)"
  by (simp add: strip_newlines_filter no_newline_def) auto

lemma no_newline_pad2: "no_newline (pad2 n)"
  by (simp add: pad2_def no_newline_digit)

lemma no_newline_decimal: "no_newline (decimal n)"
  by (induction n rule: decimal.induct) (subst decimal.simps, simp add: no_newline_digit)

lemma no_newline_common_replacements:
  "no_newline (station_name paper_config)
   \<Longrightarrow> list_all (\<lambda>(needle, repl). no_newline repl) (common_replacements clock now paper_config)"
  by (simp add: common_replacements_def station_time_text_def station_date_text_def Let_def
      no_newline_pad2 no_newline_decimal no_newline_concat_replicate)

lemma no_newline_pen_only_replacements:
  "list_all (\<lambda>(needle, repl). no_newline repl) pen_only_replacements"
  by (simp add: pen_only_replacements_def logo_img_def newline_chars_def)

lemma no_newline_encode:
  "no_newline s \<Longrightarrow> no_newline (encode_byondish_html s)"
  by (simp add: encode_byondish_html_def html_escape_def Let_def no_newline_replace newline_chars_def)

lemma no_newline_sign_stage:
  assumes "no_newline html_text" "no_newline (sign_font paper_config)"
    "no_newline (resolved_signature signature user_name)"
  shows "no_newline (sign_stage paper_config user_name signature html_text)"
  using assms
  by (simp add: sign_stage_def signature_html_def Let_def no_newline_replace no_newline_encode)

lemma no_newline_crayon_branch:
  "no_newline html_text \<Longrightarrow> no_newline (crayon_font paper_config)
   \<Longrightarrow> no_newline (pen_color paper_config)
   \<Longrightarrow> no_newline (crayon_branch paper_config html_text)"
  by (simp add: crayon_branch_def Let_def no_newline_remove_tokens)

lemma no_newline_pen_branch:
  "no_newline html_text \<Longrightarrow> no_newline (default_font paper_config)
   \<Longrightarrow> no_newline (pen_color paper_config)
   \<Longrightarrow> no_newline (pen_branch paper_config html_text)"
  by (simp add: pen_branch_def Let_def no_newline_replace_in_order
      no_newline_pen_only_replacements)

text \<open>
  Claim C3, as amended. The newline pass removes exactly the characters \<open>\n\<close>,
  \<open>\r\<close>, U+2028 and U+2029 from the escaped raw text and puts nothing in their place.
  The fragment holds none of them when the five configuration strings and the resolved
  signature text hold none.
\<close>

theorem newlines_removed_from_raw_text:
  "strip_newlines (encode_byondish_html raw_text)
     = filter (\<lambda>c. c \<notin> newline_chars) (encode_byondish_html raw_text)
   \<and> (no_newline (station_name paper_config) \<and> no_newline (default_font paper_config)
        \<and> no_newline (sign_font paper_config) \<and> no_newline (crayon_font paper_config)
        \<and> no_newline (pen_color paper_config)
        \<and> no_newline (resolved_signature signature user_name)
      \<longrightarrow> no_newline (fst (render_pencode_to_html clock raw_text paper_config user_name
                              signature is_crayon now)))"
proof (intro conjI impI)
  show "strip_newlines (encode_byondish_html raw_text)
     = filter (\<lambda>c. c \<notin> newline_chars) (encode_byondish_html raw_text)"
    by (rule strip_newlines_filter)
next
  assume h: "no_newline (station_name paper_config) \<and> no_newline (default_font paper_config)
        \<and> no_newline (sign_font paper_config) \<and> no_newline (crayon_font paper_config)
        \<and> no_newline (pen_color paper_config)
        \<and> no_newline (resolved_signature signature user_name)"
  define t1 where "t1 = strip_newlines (encode_byondish_html raw_text)"
  define t2 where "t2 = replace_in_order t1 (common_replacements clock (now_or clock now) paper_config)"
  define t3 where "t3 = sign_stage paper_config user_name signature t2"
  have "no_newline t1"
    unfolding t1_def by (rule no_newline_strip_newlines)
  then have "no_newline t2"
    unfolding t2_def using h
    by (simp add: no_newline_replace_in_order no_newline_common_replacements)
  then have c3: "no_newline t3"
    unfolding t3_def using h by (simp add: no_newline_sign_stage)
  have "fst (render_pencode_to_html clock raw_text paper_config user_name signature is_crayon now)
        = (if is_crayon then crayon_branch paper_config t3 else pen_branch paper_config t3)"
    by (simp add: render_pencode_to_html_def Let_def t1_def t2_def t3_def)
  with c3 h show "no_newline (fst (render_pencode_to_html clock raw_text paper_config user_name
                              signature is_crayon now))"
    by (simp add: no_newline_crayon_branch no_newline_pen_branch)
qed

theorem newlines_removed_from_raw_text_witness:
  "no_newline (station_name default_config) \<and> no_newline (default_font default_config)
   \<and> no_newline (sign_font default_config) \<and> no_newline (crayon_font default_config)
   \<and> no_newline (pen_color default_config) \<and> no_newline (resolved_signature None None)
   \<and> no_newline (fst (render_pencode_to_html example_now (ustr ''a'' @ [13, 10] @ ustr ''[b]'')
         default_config None None False (Some example_now)))"
  using newlines_removed_from_raw_text[of "ustr ''a'' @ [13, 10] @ ustr ''[b]''" default_config
      None None example_now False "Some example_now"]
  by (simp add: default_config_def resolved_signature_def)

text \<open>
  Claim C3 as stated fails: the raw text \<open>a\n[sign]\<close> with the signature \<open>x\ny\<close>
  renders to a fragment that holds \<open>\n\<close>, since only the raw text goes through the
  newline pass.
\<close>

theorem newline_in_signature_counterexample:
  "10 \<in> set (fst (render_pencode_to_html example_now (ustr ''a'' @ [10] @ ustr ''[sign]'')
       default_config None (Some (ustr ''x'' @ [10] @ ustr ''y'')) False (Some example_now)))"
  by (simp add: render_pencode_to_html_def ustr_def encode_byondish_html_def html_escape_def
      strip_newlines_def common_replacements_def sign_stage_def sign_tag_def pen_branch_def
      pen_only_replacements_def Let_def default_config_def resolved_signature_def strip_def
      isspace_def signature_html_def)

section \<open>Signature resolution\<close>

lemma strip_Nil: "strip [] = []"
  by (simp add: strip_def)

lemma resolved_signature_trimmed:
  "resolved_signature signature user_name = trimmed_signature_text signature user_name"
  by (auto simp: resolved_signature_def trimmed_signature_text_def strip_Nil
      split: option.splits)

text \<open>
  Claim C4, as amended. When the text after the common replacements contains \<open>[sign]\<close>,
  every occurrence is replaced by the signature wrapped in the sign font and italics, and
  otherwise the text is unchanged. The wrapped text is the escaped form of the chosen name
  trimmed of surrounding whitespace: the signature if it is not blank, else the user name
  if it is not blank, else \<open>Anonymous\<close>. With the user name \<open>Bob\<close> and a signature
  of two spaces the fragment shows \<open>Bob\<close>.
\<close>

theorem signature_resolution:
  \<open>sign_stage paper_config user_name signature html_text =
     (if contains (ustr ''[sign]'') html_text
      then replace (ustr ''[sign]'')
             (ustr ''<font face="'' @ sign_font paper_config @ ustr ''"><i>''
                @ concat (map escape_char (trimmed_signature_text signature user_name))
                @ ustr ''</i></font>'')
             html_text
      else html_text)
   \<and> resolved_signature (Some (ustr ''  '')) (Some (ustr ''Bob'')) = ustr ''Bob''
   \<and> fst (render_pencode_to_html clock (ustr ''[sign]'') default_config (Some (ustr ''Bob''))
          (Some (ustr ''  '')) False now)
       = ustr ''<font face="Verdana" color=black><font face="Times New Roman"><i>Bob</i></font></font>''\<close>
proof (intro conjI)
  show \<open>sign_stage paper_config user_name signature html_text =
     (if contains (ustr ''[sign]'') html_text
      then replace (ustr ''[sign]'')
             (ustr ''<font face="'' @ sign_font paper_config @ ustr ''"><i>''
                @ concat (map escape_char (trimmed_signature_text signature user_name))
                @ ustr ''</i></font>'')
             html_text
      else html_text)\<close>
    by (simp add: sign_stage_def sign_tag_def signature_html_def Let_def
        resolved_signature_trimmed encode_byondish_html_concat)
next
  show "resolved_signature (Some (ustr ''  '')) (Some (ustr ''Bob'')) = ustr ''Bob''"
    by (simp add: resolved_signature_def strip_def isspace_def ustr_def)
next
  show \<open>fst (render_pencode_to_html clock (ustr ''[sign]'') default_config (Some (ustr ''Bob''))
          (Some (ustr ''  '')) False now)
       = ustr ''<font face="Verdana" color=black><font face="Times New Roman"><i>Bob</i></font></font>''\<close>
    by (simp add: render_pencode_to_html_def ustr_def encode_byondish_html_def html_escape_def
      strip_newlines_def common_replacements_def sign_stage_def sign_tag_def pen_branch_def
      pen_only_replacements_def Let_def default_config_def resolved_signature_def strip_def
      isspace_def signature_html_def)
qed

text \<open>
  Claim C4 as stated fails: for the signature \<open> Al \<close> (a space on each side) the
  renderer writes \<open>Al\<close>, where the signature used as given would be written with its
  spaces.
\<close>

theorem signature_untrimmed_counterexample:
  \<open>sign_stage default_config None (Some (ustr '' Al '')) (ustr ''[sign]'')
     = ustr ''<font face="Times New Roman"><i>Al</i></font>''
   \<and> replace (ustr ''[sign]'')
         (ustr ''<font face="'' @ sign_font default_config @ ustr ''"><i>''
            @ encode_byondish_html (stated_signature_text (Some (ustr '' Al '')) None)
            @ ustr ''</i></font>'')
         (ustr ''[sign]'')
     = ustr ''<font face="Times New Roman"><i> Al </i></font>''
   \<and> ustr ''<font face="Times New Roman"><i>Al</i></font>''
     \<noteq> ustr ''<font face="Times New Roman"><i> Al </i></font>''\<close>
  by (simp add: ustr_def encode_byondish_html_def html_escape_def sign_stage_def sign_tag_def
      Let_def default_config_def resolved_signature_def stated_signature_text_def strip_def
      isspace_def signature_html_def)

section \<open>Field count\<close>

lemma field_example_fragment:
  \<open>fst (render_pencode_to_html clock (ustr ''[field][field]'') paper_config user_name signature
          False now)
   = ustr ''<font face="'' @ default_font paper_config @ ustr ''" color=''
       @ pen_color paper_config
       @ ustr ''><span class="paper_field"></span><span class="paper_field"></span></font>''\<close>
  by (simp add: render_unfold)

lemma field_span_occurrences:
  "count_str field_span s = int (card {i. i < length s \<and> prefix field_span (drop i s)})"
proof -
  have "field_span \<noteq> []" "hd field_span \<notin> set (tl field_span)"
    by (simp_all add: field_span_def ustr_def)
  then show ?thesis
    by (simp add: count_str_occurrences occurrences_card)
qed

text \<open>
  Claim C5, as amended. The field count is the result of counting the field span in the final
  fragment, and that count is the number of positions of the fragment at which the span
  occurs (an occurrence cannot overlap another). For the raw text \<open>[field][field]\<close> in
  pen mode the count is 2, for every configuration whose default font and pen colour hold
  no \<open><\<close>, the default configuration among them.
\<close>

theorem field_count:
  "snd (render_pencode_to_html clock raw_text paper_config user_name signature is_crayon now)
   = count_str field_span
       (fst (render_pencode_to_html clock raw_text paper_config user_name signature is_crayon now))
   \<and> count_str field_span
       (fst (render_pencode_to_html clock raw_text paper_config user_name signature is_crayon now))
     = int (card {i. i < length (fst (render_pencode_to_html clock raw_text paper_config
                                        user_name signature is_crayon now))
                   \<and> prefix field_span
                       (drop i (fst (render_pencode_to_html clock raw_text paper_config
                                       user_name signature is_crayon now)))})
   \<and> (60 \<notin> set (default_font paper_config) \<and> 60 \<notin> set (pen_color paper_config)
      \<longrightarrow> snd (render_pencode_to_html clock (ustr ''[field][field]'') paper_config user_name
                 signature False now) = 2)"
proof (intro conjI impI)
  assume h: "60 \<notin> set (default_font paper_config) \<and> 60 \<notin> set (pen_color paper_config)"
  show "snd (render_pencode_to_html clock (ustr ''[field][field]'') paper_config user_name
                 signature False now) = 2"
    unfolding field_count_is_count field_example_fragment using h
    by (simp add: field_span_def ustr_def count_str_skip_Cons)
qed (rule field_count_is_count field_span_occurrences)+

theorem field_count_witness:
  "60 \<notin> set (default_font default_config) \<and> 60 \<notin> set (pen_color default_config)
   \<and> snd (render_pencode_to_html example_now (ustr ''[field][field]'') default_config None None
           False (Some example_now)) = 2"
proof -
  have h: "60 \<notin> set (default_font default_config) \<and> 60 \<notin> set (pen_color default_config)"
    by (simp add: default_config_def ustr_def)
  with field_count[of example_now "ustr ''[field][field]''" default_config None None False
      "Some example_now"]
  show ?thesis by blast
qed

text \<open>
  Claim C5 as stated fails for a configuration whose strings complete a span: with the pen
  colour \<open><span class="paper_field"\<close> the \<open>>\<close> of the wrapper closes a third span,
  and the field count of \<open>[field][field]\<close> is 3.
\<close>

theorem field_count_counterexample:
  \<open>snd (render_pencode_to_html example_now (ustr ''[field][field]'')
          (default_config \<lparr> pen_color := ustr ''<span class="paper_field"'' \<rparr>)
          None None False (Some example_now)) = 3\<close>
  by (simp add: render_unfold field_span_def default_config_def)

section \<open>Crayon mode\<close>

text \<open>
  Claim C6. In crayon mode the fragment is the text that reaches the mode branch, with the
  fourteen tokens replaced by the empty string one after the other in the order of the
  list, wrapped in the crayon font, the pen colour and bold. For \<open>[list][*]a[/list]\<close>
  only \<open>a\<close> is left inside the wrapper, and neither \<open><li>\<close> nor \<open><ul>\<close> occurs.
\<close>

theorem crayon_mode:
  \<open>fst (render_pencode_to_html clock raw_text paper_config user_name signature True now)
   = ustr ''<font face="'' @ crayon_font paper_config @ ustr ''" color=''
       @ pen_color paper_config @ ustr ''><b>''
       @ replace (ustr ''[sglogo]'') [] (replace (ustr ''[logo]'') []
          (replace (ustr ''[/row]'') [] (replace (ustr ''[/cell]'') []
          (replace (ustr ''[cell]'') [] (replace (ustr ''[row]'') []
          (replace (ustr ''[/table]'') [] (replace (ustr ''[table]'') []
          (replace (ustr ''[/list]'') [] (replace (ustr ''[list]'') []
          (replace (ustr ''[/small]'') [] (replace (ustr ''[small]'') []
          (replace (ustr ''[hr]'') [] (replace (ustr ''[*]'') []
            (text_before_mode clock raw_text paper_config user_name signature now))))))))))))))
       @ ustr ''</b></font>''
   \<and> fst (render_pencode_to_html clock (ustr ''[list][*]a[/list]'') paper_config user_name
            signature True now)
     = ustr ''<font face="'' @ crayon_font paper_config @ ustr ''" color=''
         @ pen_color paper_config @ ustr ''><b>a</b></font>''
   \<and> \<not> contains (ustr ''<li>'')
         (fst (render_pencode_to_html clock (ustr ''[list][*]a[/list]'') default_config
                 user_name signature True now))
   \<and> \<not> contains (ustr ''<ul>'')
         (fst (render_pencode_to_html clock (ustr ''[list][*]a[/list]'') default_config
                 user_name signature True now))\<close>
proof (intro conjI)
  show \<open>fst (render_pencode_to_html clock raw_text paper_config user_name signature True now)
   = ustr ''<font face="'' @ crayon_font paper_config @ ustr ''" color=''
       @ pen_color paper_config @ ustr ''><b>''
       @ replace (ustr ''[sglogo]'') [] (replace (ustr ''[logo]'') []
          (replace (ustr ''[/row]'') [] (replace (ustr ''[/cell]'') []
          (replace (ustr ''[cell]'') [] (replace (ustr ''[row]'') []
          (replace (ustr ''[/table]'') [] (replace (ustr ''[table]'') []
          (replace (ustr ''[/list]'') [] (replace (ustr ''[list]'') []
          (replace (ustr ''[/small]'') [] (replace (ustr ''[small]'') []
          (replace (ustr ''[hr]'') [] (replace (ustr ''[*]'') []
            (text_before_mode clock raw_text paper_config user_name signature now))))))))))))))
       @ ustr ''</b></font>''\<close>
    by (simp add: render_fragment crayon_branch_def restricted_tokens_def Let_def ustr_def)
next
  have e: \<open>fst (render_pencode_to_html clock (ustr ''[list][*]a[/list]'') cfg user_name
            signature True now)
     = ustr ''<font face="'' @ crayon_font cfg @ ustr ''" color=''
         @ pen_color cfg @ ustr ''><b>a</b></font>''\<close> for cfg
    by (simp add: render_unfold)
  show \<open>fst (render_pencode_to_html clock (ustr ''[list][*]a[/list]'') paper_config user_name
            signature True now)
     = ustr ''<font face="'' @ crayon_font paper_config @ ustr ''" color=''
         @ pen_color paper_config @ ustr ''><b>a</b></font>''\<close>
    by (rule e)
  show \<open>\<not> contains (ustr ''<li>'')
         (fst (render_pencode_to_html clock (ustr ''[list][*]a[/list]'') default_config
                 user_name signature True now))\<close>
    unfolding e by (simp add: default_config_def ustr_def)
  show \<open>\<not> contains (ustr ''<ul>'')
         (fst (render_pencode_to_html clock (ustr ''[list][*]a[/list]'') default_config
                 user_name signature True now))\<close>
    unfolding e by (simp add: default_config_def ustr_def)
qed

section \<open>Pen mode\<close>

lemma bold_example_fragment:
  \<open>fst (render_pencode_to_html clock (ustr ''[b]hi[/b]'') paper_config user_name signature
          False now)
   = ustr ''<font face="'' @ default_font paper_config @ ustr ''" color=''
       @ pen_color paper_config @ ustr ''>'' @ ustr ''<B>hi</B>'' @ ustr ''</font>''\<close>
  by (simp add: render_unfold)

text \<open>
  Claim C7, as amended. In pen mode the whole text, after the pen-only replacements, is wrapped in the
  default-font span, and \<open>[b]hi[/b]\<close> renders to \<open><B>hi</B>\<close> inside that span. When the default font and the pen colour hold no \<open><\<close> (as in the
  default configuration), \<open><B>hi</B>\<close> occurs exactly once and the field count is 0.
\<close>

theorem pen_bold_example:
  \<open>fst (render_pencode_to_html clock raw_text paper_config user_name signature False now)
   = ustr ''<font face="'' @ default_font paper_config @ ustr ''" color=''
       @ pen_color paper_config @ ustr ''>''
       @ replace_in_order (text_before_mode clock raw_text paper_config user_name signature now)
           pen_only_replacements
       @ ustr ''</font>''
   \<and> fst (render_pencode_to_html clock (ustr ''[b]hi[/b]'') paper_config user_name signature
          False now)
   = ustr ''<font face="'' @ default_font paper_config @ ustr ''" color=''
       @ pen_color paper_config @ ustr ''>'' @ ustr ''<B>hi</B>'' @ ustr ''</font>''
   \<and> (60 \<notin> set (default_font paper_config) \<and> 60 \<notin> set (pen_color paper_config)
      \<longrightarrow> occurrences (ustr ''<B>hi</B>'')
            (fst (render_pencode_to_html clock (ustr ''[b]hi[/b]'') paper_config user_name
                    signature False now)) = 1
          \<and> snd (render_pencode_to_html clock (ustr ''[b]hi[/b]'') paper_config user_name
                    signature False now) = 0)\<close>
proof (intro conjI impI)
  show \<open>fst (render_pencode_to_html clock raw_text paper_config user_name signature False now)
   = ustr ''<font face="'' @ default_font paper_config @ ustr ''" color=''
       @ pen_color paper_config @ ustr ''>''
       @ replace_in_order (text_before_mode clock raw_text paper_config user_name signature now)
           pen_only_replacements
       @ ustr ''</font>''\<close>
    by (simp add: render_fragment pen_branch_def Let_def)
next
  show \<open>fst (render_pencode_to_html clock (ustr ''[b]hi[/b]'') paper_config user_name signature
          False now)
   = ustr ''<font face="'' @ default_font paper_config @ ustr ''" color=''
       @ pen_color paper_config @ ustr ''>'' @ ustr ''<B>hi</B>'' @ ustr ''</font>''\<close>
    by (rule bold_example_fragment)
next
  assume h: "60 \<notin> set (default_font paper_config) \<and> 60 \<notin> set (pen_color paper_config)"
  show "occurrences (ustr ''<B>hi</B>'')
            (fst (render_pencode_to_html clock (ustr ''[b]hi[/b]'') paper_config user_name
                    signature False now)) = 1"
    unfolding bold_example_fragment using h
    by (simp add: ustr_def occurrences_skip_Cons)
  show "snd (render_pencode_to_html clock (ustr ''[b]hi[/b]'') paper_config user_name
                    signature False now) = 0"
    unfolding field_count_is_count bold_example_fragment using h
    by (simp add: field_span_def ustr_def count_str_skip_Cons)
qed

theorem pen_bold_example_witness:
  \<open>60 \<notin> set (default_font default_config) \<and> 60 \<notin> set (pen_color default_config)
   \<and> fst (render_pencode_to_html example_now (ustr ''[b]hi[/b]'') default_config None None
            False (Some example_now))
       = ustr ''<font face="Verdana" color=black><B>hi</B></font>''
   \<and> occurrences (ustr ''<B>hi</B>'') (ustr ''<font face="Verdana" color=black><B>hi</B></font>'') = 1
   \<and> snd (render_pencode_to_html example_now (ustr ''[b]hi[/b]'') default_config None None
            False (Some example_now)) = 0\<close>
proof -
  note inst = pen_bold_example[where clock = example_now and raw_text = "ustr ''[b]hi[/b]''"
      and paper_config = default_config and user_name = None and signature = None
      and now = "Some example_now"]
  have h: "60 \<notin> set (default_font default_config) \<and> 60 \<notin> set (pen_color default_config)"
    by (simp add: default_config_def ustr_def)
  have e: \<open>fst (render_pencode_to_html example_now (ustr ''[b]hi[/b]'') default_config
      None None False (Some example_now)) = ustr ''<font face="Verdana" color=black><B>hi</B></font>''\<close>
    using inst[THEN conjunct2, THEN conjunct1] by (simp add: default_config_def ustr_def)
  have "occurrences (ustr ''<B>hi</B>'')
            (fst (render_pencode_to_html example_now (ustr ''[b]hi[/b]'') default_config None None
                    False (Some example_now))) = 1
          \<and> snd (render_pencode_to_html example_now (ustr ''[b]hi[/b]'') default_config None None
                    False (Some example_now)) = 0"
    using inst[THEN conjunct2, THEN conjunct2] h by blast
  with h e show ?thesis by simp
qed

text \<open>
  Claim C7 as stated fails for a configuration whose strings hold markup: with the default
  font \<open><B>hi</B>\<close> the fragment of \<open>[b]hi[/b]\<close> holds \<open><B>hi</B>\<close> twice, and
  with the pen colour \<open><span class="paper_field"\<close> its field count is 1.
\<close>

theorem pen_bold_counterexample:
  \<open>occurrences (ustr ''<B>hi</B>'')
     (fst (render_pencode_to_html example_now (ustr ''[b]hi[/b]'')
             (default_config \<lparr> default_font := ustr ''<B>hi</B>'' \<rparr>)
             None None False (Some example_now))) = 2
   \<and> snd (render_pencode_to_html example_now (ustr ''[b]hi[/b]'')
            (default_config \<lparr> pen_color := ustr ''<span class="paper_field"'' \<rparr>)
            None None False (Some example_now)) = 1\<close>
  by (simp add: render_unfold field_span_def default_config_def)

subsection \<open>Table tags\<close>

lemma replace_no_bracket:
  "is_tag n \<Longrightarrow> 91 \<notin> set xs \<Longrightarrow> replace n new (xs @ ys) = xs @ replace n new ys"
  by (induction xs) (auto simp: is_tag_def neq_Nil_conv)

lemma replace_hit: "n \<noteq> [] \<Longrightarrow> replace n new (n @ ys) = new @ replace n new ys"
  by (cases n) auto

lemma replace_quiet:
  assumes "is_tag n" "quiet n g"
  shows "replace n new (g @ ys) = g @ replace n new ys"
proof (cases "91 \<in> set g")
  case False
  with assms(1) show ?thesis by (simp add: replace_no_bracket)
next
  case True
  with assms(2) obtain g' where g: "g = 91 # g'" and g': "91 \<notin> set g'"
    and np: "\<not> prefix n g" "\<not> prefix g n"
    by (cases g) (auto simp: quiet_def)
  have "\<not> prefix n (g @ ys)"
    using np by (auto simp: prefix_append dest: prefix_order.trans) 
  then have "replace n new (g @ ys) = 91 # replace n new (g' @ ys)"
    using assms(1) g by (auto simp: is_tag_def)
  with g g' assms(1) show ?thesis by (simp add: replace_no_bracket)
qed

lemma pieces_text_Nil [simp]: "pieces_text a b [] = []"
  by (simp add: pieces_text_def)

lemma pieces_text_Cons [simp]: "pieces_text a b (p # ps) = piece_text a b p @ pieces_text a b ps"
  by (simp add: pieces_text_def)

lemma escaped_no_bracket: "91 \<notin> set p \<Longrightarrow> 91 \<notin> set (strip_newlines (encode_byondish_html p))"
  by (induction p) (auto simp: strip_newlines_filter encode_byondish_html_concat escape_char_def ustr_def)

lemma replace_foreign:
  assumes "is_tag n" "quiet n a" "quiet n b" "list_all no_bracket ps"
  shows "replace n new (pieces_text a b ps) = pieces_text a b ps"
  using assms(4)
proof (induction ps)
  case Nil
  from assms(1) show ?case by (auto simp: is_tag_def)
next
  case (Cons p ps)
  then show ?case
    using assms(1-3)
    by (cases p) (simp_all add: replace_quiet replace_no_bracket escaped_no_bracket)
qed

lemma replace_open:
  assumes "is_tag a" "quiet a b" "list_all no_bracket ps"
  shows "replace a new (pieces_text a b ps) = pieces_text new b ps"
  using assms(3)
proof (induction ps)
  case Nil
  from assms(1) show ?case by (auto simp: is_tag_def)
next
  case (Cons p ps)
  then show ?case
    using assms(1,2)
    by (cases p) (simp_all add: replace_quiet replace_no_bracket escaped_no_bracket replace_hit is_tag_def)
qed

lemma replace_close:
  assumes "is_tag b" "quiet b a" "list_all no_bracket ps"
  shows "replace b new (pieces_text a b ps) = pieces_text a new ps"
  using assms(3)
proof (induction ps)
  case Nil
  from assms(1) show ?case by (auto simp: is_tag_def)
next
  case (Cons p ps)
  then show ?case
    using assms(1,2)
    by (cases p) (simp_all add: replace_quiet replace_no_bracket escaped_no_bracket replace_hit is_tag_def)
qed

lemma contains_no_bracket:
  "is_tag n \<Longrightarrow> 91 \<notin> set xs \<Longrightarrow> contains n (xs @ ys) = contains n ys"
  by (induction xs) (auto simp: is_tag_def neq_Nil_conv)

lemma contains_quiet:
  assumes "is_tag n" "quiet n g"
  shows "contains n (g @ ys) = contains n ys"
proof (cases "91 \<in> set g")
  case False
  with assms(1) show ?thesis by (simp add: contains_no_bracket)
next
  case True
  with assms(2) obtain g' where g: "g = 91 # g'" and g': "91 \<notin> set g'"
    and np: "\<not> prefix n g" "\<not> prefix g n"
    by (cases g) (auto simp: quiet_def)
  have "\<not> prefix n (g @ ys)"
    using np by (auto simp: prefix_append dest: prefix_order.trans) 
  then have "contains n (g @ ys) = contains n (g' @ ys)"
    using g by simp
  with g' assms(1) show ?thesis by (simp add: contains_no_bracket)
qed

lemma contains_foreign:
  assumes "is_tag n" "quiet n a" "quiet n b" "list_all no_bracket ps"
  shows "\<not> contains n (pieces_text a b ps)"
  using assms(4)
proof (induction ps)
  case Nil
  with assms(1) show ?case by (simp add: is_tag_def)
next
  case (Cons p ps)
  then show ?case
    using assms(1-3)
    by (cases p) (simp_all add: contains_quiet contains_no_bracket escaped_no_bracket)
qed

lemma escaped_pieces:
  "strip_newlines (encode_byondish_html (concat (map piece_source ps)))
   = pieces_text (ustr ''[table]'') (ustr ''[/table]'') ps"
proof (induction ps)
  case Nil
  show ?case by (simp add: strip_newlines_filter encode_byondish_html_concat)
next
  case (Cons p ps)
  have tags: "strip_newlines (encode_byondish_html (ustr ''[table]'')) = ustr ''[table]''"
    "strip_newlines (encode_byondish_html (ustr ''[/table]'')) = ustr ''[/table]''"
    by (simp_all add: strip_newlines_filter encode_byondish_html_concat escape_char_def ustr_def
        newline_chars_def)
  have app: "strip_newlines (encode_byondish_html (xs @ ys))
      = strip_newlines (encode_byondish_html xs) @ strip_newlines (encode_byondish_html ys)" for xs ys
    by (simp add: strip_newlines_filter encode_byondish_html_concat)
  from Cons tags show ?case
    by (cases p) (simp_all add: app)
qed

lemma html_pieces:
  \<open>pieces_text
     (ustr ''<table border=1 cellspacing=0 cellpadding=3 style='border: 1px solid black;'>'')
     (ustr ''</td></tr></table>'') ps
   = concat (map piece_html ps)\<close>
proof (induction ps)
  case Nil
  show ?case by simp
next
  case (Cons p ps)
  then show ?case by (cases p) simp_all
qed

lemma replace_in_order_append:
  "replace_in_order t (xs @ ys) = replace_in_order (replace_in_order t xs) ys"
  by (induction t xs rule: replace_in_order.induct) simp_all

lemma replace_in_order_foreign:
  "list_all (\<lambda>(n, r). is_tag n \<and> quiet n a \<and> quiet n b) rs \<Longrightarrow> list_all no_bracket ps
   \<Longrightarrow> replace_in_order (pieces_text a b ps) rs = pieces_text a b ps"
  by (induction rs) (auto simp: replace_foreign)

lemma common_stage_pieces:
  assumes "list_all no_bracket ps"
  shows "replace_in_order (pieces_text (ustr ''[table]'') (ustr ''[/table]'') ps)
           (common_replacements clock now paper_config)
         = pieces_text (ustr ''[table]'') (ustr ''[/table]'') ps"
proof -
  have "list_all (\<lambda>(n, r). is_tag n \<and> quiet n (ustr ''[table]'') \<and> quiet n (ustr ''[/table]''))
          (common_replacements clock now paper_config)"
    by (simp add: common_replacements_def is_tag_def quiet_def ustr_def)
  then show ?thesis using assms by (rule replace_in_order_foreign)
qed

lemma sign_stage_pieces:
  assumes "list_all no_bracket ps"
  shows "sign_stage paper_config user_name signature
           (pieces_text (ustr ''[table]'') (ustr ''[/table]'') ps)
         = pieces_text (ustr ''[table]'') (ustr ''[/table]'') ps"
proof -
  have "\<not> contains sign_tag (pieces_text (ustr ''[table]'') (ustr ''[/table]'') ps)"
    using assms
    by (intro contains_foreign) (simp_all add: sign_tag_def is_tag_def quiet_def ustr_def)
  then show ?thesis by (simp add: sign_stage_def)
qed

lemma pen_stage_pieces:
  assumes "list_all no_bracket ps"
  shows "replace_in_order (pieces_text (ustr ''[table]'') (ustr ''[/table]'') ps)
           pen_only_replacements
         = concat (map piece_html ps)"
proof -
  let ?open = \<open>ustr ''<table border=1 cellspacing=0 cellpadding=3 style='border: 1px solid black;'>''\<close>
  let ?close = \<open>ustr ''</td></tr></table>''\<close>
  have split: "pen_only_replacements
      = take 6 pen_only_replacements
        @ [(ustr ''[table]'', ?open), (ustr ''[/table]'', ?close)]
        @ drop 8 pen_only_replacements"
    by (simp add: pen_only_replacements_def ustr_def)
  have before: "list_all (\<lambda>(n, r). is_tag n \<and> quiet n (ustr ''[table]'') \<and> quiet n (ustr ''[/table]''))
          (take 6 pen_only_replacements)"
    by (simp add: pen_only_replacements_def is_tag_def quiet_def ustr_def)
  have after: "list_all (\<lambda>(n, r). is_tag n \<and> quiet n ?open \<and> quiet n ?close)
          (drop 8 pen_only_replacements)"
    by (simp add: pen_only_replacements_def is_tag_def quiet_def ustr_def logo_img_def)
  have s1: "replace_in_order (pieces_text (ustr ''[table]'') (ustr ''[/table]'') ps)
              (take 6 pen_only_replacements)
            = pieces_text (ustr ''[table]'') (ustr ''[/table]'') ps"
    using before assms by (rule replace_in_order_foreign)
  have s2: "replace (ustr ''[table]'') ?open (pieces_text (ustr ''[table]'') (ustr ''[/table]'') ps)
            = pieces_text ?open (ustr ''[/table]'') ps"
    using assms by (intro replace_open) (simp_all add: is_tag_def quiet_def ustr_def)
  have s3: "replace (ustr ''[/table]'') ?close (pieces_text ?open (ustr ''[/table]'') ps)
            = pieces_text ?open ?close ps"
    using assms by (intro replace_close) (simp_all add: is_tag_def quiet_def ustr_def)
  have s4: "replace_in_order (pieces_text ?open ?close ps) (drop 8 pen_only_replacements)
            = pieces_text ?open ?close ps"
    using after assms by (rule replace_in_order_foreign)
  have "replace_in_order (pieces_text (ustr ''[table]'') (ustr ''[/table]'') ps)
           pen_only_replacements = pieces_text ?open ?close ps"
    by (subst split) (simp only: replace_in_order_append replace_in_order.simps s1 s2 s3 s4)
  then show ?thesis by (simp add: html_pieces)
qed

lemma render_pieces:
  assumes "list_all no_bracket ps"
  shows \<open>fst (render_pencode_to_html clock (concat (map piece_source ps)) paper_config user_name
            signature False now)
         = ustr ''<font face="'' @ default_font paper_config @ ustr ''" color=''
             @ pen_color paper_config @ ustr ''>'' @ concat (map piece_html ps)
             @ ustr ''</font>''\<close>
  using assms
  by (simp add: render_fragment text_before_mode_def escaped_pieces common_stage_pieces
      sign_stage_pieces pen_branch_def Let_def pen_stage_pieces)

text \<open>
  Claim C8. In pen mode \<open>[table]\<close> becomes the table opening tag with border 1,
  cellspacing 0, cellpadding 3 and the style of a 1px solid black border, and
  \<open>[/table]\<close> becomes \<open></td></tr></table>\<close>. For every text the two replacements run
  on the whole text, after the first six pen-only replacements and before the last ten.
  For every raw text made of \<open>[table]\<close>, \<open>[/table]\<close> and stretches without \<open>[\<close>, in
  any number and order, the fragment holds each tag as that markup and each stretch
  escaped. The fragment of \<open>[table]...[/table]\<close> is one instance, and the two entries of
  the pen-only list are these strings.
\<close>

theorem pen_table_tags:
  \<open>fst (render_pencode_to_html clock raw_text paper_config user_name signature False now)
   = ustr ''<font face="'' @ default_font paper_config @ ustr ''" color=''
       @ pen_color paper_config @ ustr ''>''
       @ replace_in_order
           (replace (ustr ''[/table]'') (ustr ''</td></tr></table>'')
              (replace (ustr ''[table]'')
                 (ustr ''<table border=1 cellspacing=0 cellpadding=3 style='border: 1px solid black;'>'')
                 (replace_in_order
                    (text_before_mode clock raw_text paper_config user_name signature now)
                    (take 6 pen_only_replacements))))
           (drop 8 pen_only_replacements)
       @ ustr ''</font>''
   \<and> (list_all no_bracket ps \<longrightarrow>
        fst (render_pencode_to_html clock (concat (map piece_source ps)) paper_config user_name
               signature False now)
        = ustr ''<font face="'' @ default_font paper_config @ ustr ''" color=''
            @ pen_color paper_config @ ustr ''>'' @ concat (map piece_html ps)
            @ ustr ''</font>'')
   \<and> fst (render_pencode_to_html clock (ustr ''[table]...[/table]'') paper_config user_name
          signature False now)
     = ustr ''<font face="'' @ default_font paper_config @ ustr ''" color=''
         @ pen_color paper_config @ ustr ''>''
         @ ustr ''<table border=1 cellspacing=0 cellpadding=3 style='border: 1px solid black;'>''
         @ ustr ''...'' @ ustr ''</td></tr></table>'' @ ustr ''</font>''
   \<and> map_of pen_only_replacements (ustr ''[table]'')
     = Some (ustr ''<table border=1 cellspacing=0 cellpadding=3 style='border: 1px solid black;'>'')
   \<and> map_of pen_only_replacements (ustr ''[/table]'') = Some (ustr ''</td></tr></table>'')\<close>
proof (intro conjI impI)
  have split: \<open>pen_only_replacements
      = take 6 pen_only_replacements
        @ [(ustr ''[table]'',
            ustr ''<table border=1 cellspacing=0 cellpadding=3 style='border: 1px solid black;'>''),
           (ustr ''[/table]'', ustr ''</td></tr></table>'')]
        @ drop 8 pen_only_replacements\<close>
    by (simp add: pen_only_replacements_def ustr_def)
  have \<open>replace_in_order t pen_only_replacements
      = replace_in_order
           (replace (ustr ''[/table]'') (ustr ''</td></tr></table>'')
              (replace (ustr ''[table]'')
                 (ustr ''<table border=1 cellspacing=0 cellpadding=3 style='border: 1px solid black;'>'')
                 (replace_in_order t (take 6 pen_only_replacements))))
           (drop 8 pen_only_replacements)\<close> for t
    by (subst split) (simp only: replace_in_order_append replace_in_order.simps)
  then show \<open>fst (render_pencode_to_html clock raw_text paper_config user_name signature False now)
   = ustr ''<font face="'' @ default_font paper_config @ ustr ''" color=''
       @ pen_color paper_config @ ustr ''>''
       @ replace_in_order
           (replace (ustr ''[/table]'') (ustr ''</td></tr></table>'')
              (replace (ustr ''[table]'')
                 (ustr ''<table border=1 cellspacing=0 cellpadding=3 style='border: 1px solid black;'>'')
                 (replace_in_order
                    (text_before_mode clock raw_text paper_config user_name signature now)
                    (take 6 pen_only_replacements))))
           (drop 8 pen_only_replacements)
       @ ustr ''</font>''\<close>
    by (simp add: render_fragment pen_branch_def Let_def)
next
  assume "list_all no_bracket ps"
  then show \<open>fst (render_pencode_to_html clock (concat (map piece_source ps)) paper_config
               user_name signature False now)
        = ustr ''<font face="'' @ default_font paper_config @ ustr ''" color=''
            @ pen_color paper_config @ ustr ''>'' @ concat (map piece_html ps)
            @ ustr ''</font>''\<close>
    by (rule render_pieces)
next
  show \<open>fst (render_pencode_to_html clock (ustr ''[table]...[/table]'') paper_config user_name
          signature False now)
     = ustr ''<font face="'' @ default_font paper_config @ ustr ''" color=''
         @ pen_color paper_config @ ustr ''>''
         @ ustr ''<table border=1 cellspacing=0 cellpadding=3 style='border: 1px solid black;'>''
         @ ustr ''...'' @ ustr ''</td></tr></table>'' @ ustr ''</font>''\<close>
    by (simp add: render_unfold)
next
  show \<open>map_of pen_only_replacements (ustr ''[table]'')
     = Some (ustr ''<table border=1 cellspacing=0 cellpadding=3 style='border: 1px solid black;'>'')\<close>
    by (simp add: pen_only_replacements_def ustr_def)
next
  show \<open>map_of pen_only_replacements (ustr ''[/table]'') = Some (ustr ''</td></tr></table>'')\<close>
    by (simp add: pen_only_replacements_def ustr_def)
qed

theorem pen_table_tags_witness:
  \<open>list_all no_bracket [Plain (ustr ''a<''), Table_Open, Plain (ustr ''b''), Table_Open, Table_Close]
   \<and> concat (map piece_source
         [Plain (ustr ''a<''), Table_Open, Plain (ustr ''b''), Table_Open, Table_Close])
     = ustr ''a<[table]b[table][/table]''
   \<and> fst (render_pencode_to_html example_now (ustr ''a<[table]b[table][/table]'') default_config
          None None False (Some example_now))
     = ustr ''<font face="Verdana" color=black>a&lt;''
       @ ustr ''<table border=1 cellspacing=0 cellpadding=3 style='border: 1px solid black;'>''
       @ ustr ''b''
       @ ustr ''<table border=1 cellspacing=0 cellpadding=3 style='border: 1px solid black;'>''
       @ ustr ''</td></tr></table></font>''\<close>
proof -
  let ?ps = \<open>[Plain (ustr ''a<''), Table_Open, Plain (ustr ''b''), Table_Open, Table_Close]\<close>
  have h: "list_all no_bracket ?ps"
    by (simp add: ustr_def)
  have src: \<open>concat (map piece_source ?ps) = ustr ''a<[table]b[table][/table]''\<close>
    by (simp add: ustr_def)
  have html: \<open>concat (map piece_html ?ps)
      = ustr ''a&lt;''
       @ ustr ''<table border=1 cellspacing=0 cellpadding=3 style='border: 1px solid black;'>''
       @ ustr ''b''
       @ ustr ''<table border=1 cellspacing=0 cellpadding=3 style='border: 1px solid black;'>''
       @ ustr ''</td></tr></table>''\<close>
    by (simp add: ustr_def strip_newlines_def encode_byondish_html_def html_escape_def)
  from pen_table_tags[where ps = ?ps and clock = example_now and paper_config = default_config
      and user_name = None and signature = None and now = "Some example_now",
      THEN conjunct2, THEN conjunct1] h
  have \<open>fst (render_pencode_to_html example_now (concat (map piece_source ?ps)) default_config
               None None False (Some example_now))
        = ustr ''<font face="'' @ default_font default_config @ ustr ''" color=''
            @ pen_color default_config @ ustr ''>'' @ concat (map piece_html ?ps)
            @ ustr ''</font>''\<close>
    by blast
  then have \<open>fst (render_pencode_to_html example_now (ustr ''a<[table]b[table][/table]'')
          default_config None None False (Some example_now))
     = ustr ''<font face="Verdana" color=black>a&lt;''
       @ ustr ''<table border=1 cellspacing=0 cellpadding=3 style='border: 1px solid black;'>''
       @ ustr ''b''
       @ ustr ''<table border=1 cellspacing=0 cellpadding=3 style='border: 1px solid black;'>''
       @ ustr ''</td></tr></table></font>''\<close>
    unfolding src html by (simp add: default_config_def ustr_def)
  with h src show ?thesis by blast
qed

section \<open>Tags inside the signature\<close>

text \<open>
  Claim C10. The mode branch runs on the text in which \<open>[sign]\<close> has already been
  resolved, and the escaper keeps \<open>[\<close> and \<open>]\<close>, so a tag inside the signature is
  treated like any other: with the
  signature \<open>[hr]\<close> the pen fragment holds \<open><HR>\<close> inside the signature wrapper, and
  with the signature \<open>x[hr]y\<close> the crayon fragment holds \<open>xy\<close> there.
\<close>

theorem signature_tags_substituted:
  \<open>fst (render_pencode_to_html clock raw_text paper_config user_name signature is_crayon now)
   = (let html_text = replace_in_order (strip_newlines (encode_byondish_html raw_text))
                        (common_replacements clock (now_or clock now) paper_config);
          html_text = sign_stage paper_config user_name signature html_text
      in if is_crayon then crayon_branch paper_config html_text
         else pen_branch paper_config html_text)
   \<and> encode_byondish_html (xs @ ustr ''['' @ ys)
     = encode_byondish_html xs @ ustr ''['' @ encode_byondish_html ys
   \<and> encode_byondish_html (xs @ ustr '']'' @ ys)
     = encode_byondish_html xs @ ustr '']'' @ encode_byondish_html ys
   \<and> fst (render_pencode_to_html clock (ustr ''[sign]'') default_config user_name
            (Some (ustr ''[hr]'')) False now)
     = ustr ''<font face="Verdana" color=black><font face="Times New Roman"><i><HR></i></font></font>''
   \<and> fst (render_pencode_to_html clock (ustr ''[sign]'') default_config user_name
            (Some (ustr ''x[hr]y'')) True now)
     = ustr ''<font face="Comic Sans MS" color=black><b><font face="Times New Roman"><i>xy</i></font></b></font>''\<close>
proof (intro conjI)
  show \<open>fst (render_pencode_to_html clock raw_text paper_config user_name signature is_crayon now)
   = (let html_text = replace_in_order (strip_newlines (encode_byondish_html raw_text))
                        (common_replacements clock (now_or clock now) paper_config);
          html_text = sign_stage paper_config user_name signature html_text
      in if is_crayon then crayon_branch paper_config html_text
         else pen_branch paper_config html_text)\<close>
    by (simp add: render_pencode_to_html_def Let_def)
  show \<open>encode_byondish_html (xs @ ustr ''['' @ ys)
     = encode_byondish_html xs @ ustr ''['' @ encode_byondish_html ys\<close>
    by (simp add: encode_byondish_html_concat escape_char_def ustr_def)
  show \<open>encode_byondish_html (xs @ ustr '']'' @ ys)
     = encode_byondish_html xs @ ustr '']'' @ encode_byondish_html ys\<close>
    by (simp add: encode_byondish_html_concat escape_char_def ustr_def)
  show \<open>fst (render_pencode_to_html clock (ustr ''[sign]'') default_config user_name
            (Some (ustr ''[hr]'')) False now)
     = ustr ''<font face="Verdana" color=black><font face="Times New Roman"><i><HR></i></font></font>''\<close>
    by (simp add: render_unfold default_config_def resolved_signature_def strip_def
      isspace_def signature_html_def)
  show \<open>fst (render_pencode_to_html clock (ustr ''[sign]'') default_config user_name
            (Some (ustr ''x[hr]y'')) True now)
     = ustr ''<font face="Comic Sans MS" color=black><b><font face="Times New Roman"><i>xy</i></font></b></font>''\<close>
    by (simp add: render_unfold default_config_def resolved_signature_def strip_def
      isspace_def signature_html_def)
qed

section \<open>Determinism and totality\<close>

text \<open>
  Claim C1. With an explicit \<open>now\<close> the result does not depend on the clock, the only
  thing the renderer reads besides its arguments: two calls with the same arguments return
  the same fragment and the same field count.
\<close>

theorem render_deterministic:
  "render_pencode_to_html clock1 raw_text paper_config user_name signature is_crayon (Some now)
   = render_pencode_to_html clock2 raw_text paper_config user_name signature is_crayon (Some now)"
  by (simp add: render_pencode_to_html_def now_or_def common_replacements_def
      station_time_text_def station_date_text_def)




end
